theory Spec2Isabelle
  imports Main "HOL-Library.AList"
begin

section \<open>Automated Receipt Processing System: a model of lambda.py\<close>

text \<open>
  The program is one Python module with four functions: \<open>lambda_handler\<close>,
  \<open>process_receipt_with_textract\<close>, \<open>store_receipt_in_dynamodb\<close> and
  \<open>send_email_notification\<close>. It reads an S3 upload event, asks Textract to analyse
  the object, maps the answer to a receipt record, writes the record to DynamoDB and
  sends a mail through SES.

  The event and the Textract answer are untyped JSON-like Python values, and the code
  reads them with \<open>in\<close>, \<open>[...]\<close>, \<open>.get\<close> and \<open>for\<close>. Each of these operations
  raises on a value of the wrong shape, so each is modelled as a function into
  \<open>exn + 'a\<close> (\<open>Inl\<close> is the exception raised). Calls to \<open>print\<close> only write log
  lines and are left out.
\<close>

subsection \<open>Python values, exceptions and formatted text\<close>

text \<open>
  \<open>JNum\<close> stands for a number. The code never computes with one: it tests it for
  truthiness or fails on it, so a float is represented by an integer that is zero
  exactly when the float is. A dictionary is an association list read through
  \<open>map_of\<close>. Strings are lists of \<open>char\<close>.
\<close>

datatype json =
    JNull
  | JBool bool
  | JNum int
  | JStr string
  | JList "json list"
  | JDict "(string \<times> json) list"

text \<open>
  An f-string is kept as the list of its pieces, a literal or \<open>str(...)\<close> of a value
  or of an exception, so that no message text of the Python runtime is made up.
  \<open>ClientError\<close> stands for any exception raised inside a boto3 client call, named
  by a label. \<open>PyException\<close> is \<open>Exception(msg)\<close> as raised at line 60.
\<close>

datatype exn =
    KeyError json
  | IndexError
  | TypeError
  | AttributeError
  | ClientError string
  | PyException "frag list"
and frag =
    Lit string
  | StrOf json
  | StrExn exn

type_synonym ftext = "frag list"

type_synonym pydict = "(string \<times> json) list"

subsection \<open>The Python operations the module uses\<close>

fun starts_with :: "string \<Rightarrow> string \<Rightarrow> bool" where
  "starts_with [] s = True"
| "starts_with (p # ps) [] = False"
| "starts_with (p # ps) (c # cs) = (p = c \<and> starts_with ps cs)"

fun is_substring :: "string \<Rightarrow> string \<Rightarrow> bool" where
  "is_substring p [] = (p = [])"
| "is_substring p (c # cs) = (starts_with p (c # cs) \<or> is_substring p cs)"

text \<open>\<open>k in v\<close> for a string literal \<open>k\<close>.\<close>

fun py_contains :: "string \<Rightarrow> json \<Rightarrow> exn + bool" where
  "py_contains k (JDict kvs) = Inr (map_of kvs k \<noteq> None)"
| "py_contains k (JList xs) = Inr (JStr k \<in> set xs)"
| "py_contains k (JStr s) = Inr (is_substring k s)"
| "py_contains k v = Inl TypeError"

text \<open>\<open>v[k]\<close> for a string literal \<open>k\<close>.\<close>

fun py_getitem :: "json \<Rightarrow> string \<Rightarrow> exn + json" where
  "py_getitem (JDict kvs) k =
     (case map_of kvs k of None \<Rightarrow> Inl (KeyError (JStr k)) | Some v \<Rightarrow> Inr v)"
| "py_getitem v k = Inl TypeError"

text \<open>\<open>v[0]\<close>. The keys of a JSON dictionary are strings, so \<open>0\<close> is never one.\<close>

fun py_getitem0 :: "json \<Rightarrow> exn + json" where
  "py_getitem0 (JList []) = Inl IndexError"
| "py_getitem0 (JList (x # xs)) = Inr x"
| "py_getitem0 (JStr []) = Inl IndexError"
| "py_getitem0 (JStr (c # cs)) = Inr (JStr [c])"
| "py_getitem0 (JDict kvs) = Inl (KeyError (JNum 0))"
| "py_getitem0 v = Inl TypeError"

text \<open>\<open>v.get(k, d)\<close>: only a dictionary has the method.\<close>

fun py_get :: "json \<Rightarrow> string \<Rightarrow> json \<Rightarrow> exn + json" where
  "py_get (JDict kvs) k d = Inr (case map_of kvs k of None \<Rightarrow> d | Some v \<Rightarrow> v)"
| "py_get v k d = Inl AttributeError"

text \<open>The elements \<open>for x in v\<close> runs through.\<close>

fun py_iter :: "json \<Rightarrow> exn + json list" where
  "py_iter (JList xs) = Inr xs"
| "py_iter (JDict kvs) = Inr (map (\<lambda>kv. JStr (fst kv)) kvs)"
| "py_iter (JStr s) = Inr (map (\<lambda>c. JStr [c]) s)"
| "py_iter v = Inl TypeError"

fun py_truthy :: "json \<Rightarrow> bool" where
  "py_truthy JNull = False"
| "py_truthy (JBool b) = b"
| "py_truthy (JNum n) = (n \<noteq> 0)"
| "py_truthy (JStr s) = (s \<noteq> [])"
| "py_truthy (JList xs) = (xs \<noteq> [])"
| "py_truthy (JDict kvs) = (kvs \<noteq> [])"

text \<open>A \<open>for\<close> loop whose body may raise: the first exception ends the loop.\<close>

fun for_loop :: "('s \<Rightarrow> 'a \<Rightarrow> exn + 's) \<Rightarrow> 'a list \<Rightarrow> 's \<Rightarrow> exn + 's" where
  "for_loop body [] s = Inr s"
| "for_loop body (x # xs) s =
     (case body s x of Inl e \<Rightarrow> Inl e | Inr s' \<Rightarrow> for_loop body xs s')"

subsection \<open>Records, the environment and the outside world\<close>

text \<open>
  \<open>receipt_data\<close> is the dictionary built at lines 130-137; its six keys are always
  present, so it is a record (fields prefixed \<open>rd_\<close>). A line item is a dictionary
  whose keys \<open>name\<close>, \<open>price\<close>, \<open>quantity\<close> may be absent, so it stays a \<open>pydict\<close>.
  A value copied from the Textract answer is whatever \<open>.get('Text', '')\<close> returned.
\<close>

record receipt_data =
  rd_receipt_id :: string
  rd_date :: json
  rd_vendor :: json
  rd_total :: json
  rd_items :: "pydict list"
  rd_s3_path :: ftext

text \<open>\<open>db_item\<close>, lines 233-241.\<close>

record db_item =
  db_receipt_id :: string
  db_date :: json
  db_vendor :: json
  db_total :: json
  db_items :: "pydict list"
  db_s3_path :: ftext
  db_processed_timestamp :: string

text \<open>The arguments of \<open>ses.send_email\<close>, lines 303-318.\<close>

record email =
  em_source :: string
  em_to_addresses :: "string list"
  em_subject :: ftext
  em_html :: ftext

text \<open>
  What one invocation reads from outside: the module-level configuration, the clock,
  the UUID generator, \<open>urllib.parse.unquote_plus\<close>, and the answer of each AWS call
  (\<open>Some e\<close> or \<open>Inl e\<close>: the call raises \<open>e\<close>).
\<close>

record env =
  DYNAMODB_TABLE :: string
  SES_SENDER_EMAIL :: string
  SES_RECIPIENT_EMAIL :: string
  uuid4 :: string
  today :: string
  now_iso :: string
  unquote :: "string \<Rightarrow> string"
  head_object :: "json \<Rightarrow> string \<Rightarrow> exn option"
  analyze_expense :: "json \<Rightarrow> string \<Rightarrow> exn + json"
  put_item :: "string \<Rightarrow> db_item \<Rightarrow> exn option"
  send_email :: "email \<Rightarrow> exn option"

text \<open>
  The outside world: every call made to an AWS client, in order, and the content of
  the DynamoDB table, addressed by partition key and sort key.
\<close>

datatype call =
    HeadObject json string
  | AnalyzeExpense json string
  | PutItem string db_item
  | SendEmail email

record world =
  calls :: "call list"
  table :: "string \<times> json \<Rightarrow> db_item option"

record response =
  statusCode :: int
  body :: ftext

subsection \<open>process_receipt_with_textract: the field mapper\<close>

text \<open>
  \<open>field.get('Type', {}).get('Text', '')\<close> and
  \<open>field.get('ValueDetection', {}).get('Text', '')\<close>, lines 153-154 and 181-182.
\<close>

definition field_type :: "json \<Rightarrow> exn + json" where
  "field_type field =
     (case py_get field ''Type'' (JDict []) of
        Inl e \<Rightarrow> Inl e
      | Inr t \<Rightarrow> py_get t ''Text'' (JStr []))"

definition field_value :: "json \<Rightarrow> exn + json" where
  "field_value field =
     (case py_get field ''ValueDetection'' (JDict []) of
        Inl e \<Rightarrow> Inl e
      | Inr d \<Rightarrow> py_get d ''Text'' (JStr []))"

text \<open>
  The body of the loop over the summary fields, lines 151-167. The \<open>try\<close> around the
  assignment of the date encloses nothing that can raise.
\<close>

definition summary_field :: "receipt_data \<Rightarrow> json \<Rightarrow> exn + receipt_data" where
  "summary_field rd field =
     (case field_type field of
        Inl e \<Rightarrow> Inl e
      | Inr ft \<Rightarrow>
          (case field_value field of
             Inl e \<Rightarrow> Inl e
           | Inr v \<Rightarrow>
               Inr (if ft = JStr ''TOTAL'' then rd\<lparr>rd_total := v\<rparr>
                    else if ft = JStr ''INVOICE_RECEIPT_DATE'' then rd\<lparr>rd_date := v\<rparr>
                    else if ft = JStr ''VENDOR_NAME'' then rd\<lparr>rd_vendor := v\<rparr>
                    else rd)))"

text \<open>Lines 150-167.\<close>

definition summary_fields :: "receipt_data \<Rightarrow> json \<Rightarrow> exn + receipt_data" where
  "summary_fields rd expense_doc =
     (case py_contains ''SummaryFields'' expense_doc of
        Inl e \<Rightarrow> Inl e
      | Inr False \<Rightarrow> Inr rd
      | Inr True \<Rightarrow>
          (case py_getitem expense_doc ''SummaryFields'' of
             Inl e \<Rightarrow> Inl e
           | Inr fs \<Rightarrow>
               (case py_iter fs of
                  Inl e \<Rightarrow> Inl e
                | Inr flds \<Rightarrow> for_loop summary_field flds rd)))"

text \<open>
  The body of the loop over the fields of one line item, lines 181-190.
  \<open>item[k] = v\<close> replaces the value of a key in place, or appends a new key.
\<close>

definition item_field :: "pydict \<Rightarrow> json \<Rightarrow> exn + pydict" where
  "item_field item field =
     (case field_type field of
        Inl e \<Rightarrow> Inl e
      | Inr ft \<Rightarrow>
          (case field_value field of
             Inl e \<Rightarrow> Inl e
           | Inr v \<Rightarrow>
               Inr (if ft = JStr ''ITEM'' then AList.update ''name'' v item
                    else if ft = JStr ''PRICE'' then AList.update ''price'' v item
                    else if ft = JStr ''QUANTITY'' then AList.update ''quantity'' v item
                    else item)))"

text \<open>The body of the loop over the line items of a group, lines 177-194.\<close>

definition line_item :: "pydict list \<Rightarrow> json \<Rightarrow> exn + pydict list" where
  "line_item items li =
     (case py_get li ''LineItemExpenseFields'' (JList []) of
        Inl e \<Rightarrow> Inl e
      | Inr fs \<Rightarrow>
          (case py_iter fs of
             Inl e \<Rightarrow> Inl e
           | Inr flds \<Rightarrow>
               (case for_loop item_field flds [] of
                  Inl e \<Rightarrow> Inl e
                | Inr item \<Rightarrow>
                    Inr (if map_of item ''name'' \<noteq> None then items @ [item] else items))))"

text \<open>The body of the loop over the groups, lines 175-194.\<close>

definition line_item_group :: "pydict list \<Rightarrow> json \<Rightarrow> exn + pydict list" where
  "line_item_group items grp =
     (case py_contains ''LineItems'' grp of
        Inl e \<Rightarrow> Inl e
      | Inr False \<Rightarrow> Inr items
      | Inr True \<Rightarrow>
          (case py_getitem grp ''LineItems'' of
             Inl e \<Rightarrow> Inl e
           | Inr ls \<Rightarrow>
               (case py_iter ls of
                  Inl e \<Rightarrow> Inl e
                | Inr lis \<Rightarrow> for_loop line_item lis items)))"

text \<open>Lines 173-194.\<close>

definition line_item_groups :: "pydict list \<Rightarrow> json \<Rightarrow> exn + pydict list" where
  "line_item_groups items expense_doc =
     (case py_contains ''LineItemGroups'' expense_doc of
        Inl e \<Rightarrow> Inl e
      | Inr False \<Rightarrow> Inr items
      | Inr True \<Rightarrow>
          (case py_getitem expense_doc ''LineItemGroups'' of
             Inl e \<Rightarrow> Inl e
           | Inr gs \<Rightarrow>
               (case py_iter gs of
                  Inl e \<Rightarrow> Inl e
                | Inr groups \<Rightarrow> for_loop line_item_group groups items)))"

text \<open>Lines 144-194: the first expense document fills the record.\<close>

definition expense_document :: "receipt_data \<Rightarrow> json \<Rightarrow> exn + receipt_data" where
  "expense_document rd expense_doc =
     (case summary_fields rd expense_doc of
        Inl e \<Rightarrow> Inl e
      | Inr rd' \<Rightarrow>
          (case line_item_groups (rd_items rd') expense_doc of
             Inl e \<Rightarrow> Inl e
           | Inr items \<Rightarrow> Inr (rd'\<lparr>rd_items := items\<rparr>)))"

text \<open>The record with its default values, lines 126-137.\<close>

definition initial_receipt :: "env \<Rightarrow> json \<Rightarrow> string \<Rightarrow> receipt_data" where
  "initial_receipt en bucket key =
     \<lparr>rd_receipt_id = uuid4 en,
      rd_date = JStr (today en),
      rd_vendor = JStr ''Unknown'',
      rd_total = JStr ''0.00'',
      rd_items = [],
      rd_s3_path = [Lit ''s3://'', StrOf bucket, Lit ''/'', StrOf (JStr key)]\<rparr>"

text \<open>
  Lines 126-198: what \<open>process_receipt_with_textract\<close> does with the answer of
  Textract once the call has returned.
\<close>

definition receipt_of_response :: "env \<Rightarrow> json \<Rightarrow> string \<Rightarrow> json \<Rightarrow> exn + receipt_data" where
  "receipt_of_response en bucket key resp =
     (let rd = initial_receipt en bucket key in
      case py_contains ''ExpenseDocuments'' resp of
        Inl e \<Rightarrow> Inl e
      | Inr False \<Rightarrow> Inr rd
      | Inr True \<Rightarrow>
          (case py_getitem resp ''ExpenseDocuments'' of
             Inl e \<Rightarrow> Inl e
           | Inr docs \<Rightarrow>
               if \<not> py_truthy docs then Inr rd
               else (case py_getitem0 docs of
                       Inl e \<Rightarrow> Inl e
                     | Inr expense_doc \<Rightarrow> expense_document rd expense_doc)))"

text \<open>Lines 100-198. An exception of the Textract call is raised again (line 120).\<close>

definition process_receipt_with_textract ::
  "env \<Rightarrow> json \<Rightarrow> string \<Rightarrow> world \<Rightarrow> (exn + receipt_data) \<times> world" where
  "process_receipt_with_textract en bucket key w =
     (let w' = w\<lparr>calls := calls w @ [AnalyzeExpense bucket key]\<rparr> in
      case analyze_expense en bucket key of
        Inl e \<Rightarrow> (Inl e, w')
      | Inr resp \<Rightarrow> (receipt_of_response en bucket key resp, w'))"

subsection \<open>store_receipt_in_dynamodb\<close>

text \<open>\<open>item.get(k, d)\<close> on a line item.\<close>

definition item_get :: "pydict \<Rightarrow> string \<Rightarrow> json \<Rightarrow> json" where
  "item_get item k d = (case map_of item k of None \<Rightarrow> d | Some v \<Rightarrow> v)"

text \<open>The dictionary appended to \<open>items_for_db\<close>, lines 222-226.\<close>

definition item_for_db :: "pydict \<Rightarrow> pydict" where
  "item_for_db item =
     [(''name'', item_get item ''name'' (JStr ''Unknown Item'')),
      (''price'', item_get item ''price'' (JStr ''0.00'')),
      (''quantity'', item_get item ''quantity'' (JStr ''1''))]"

text \<open>\<open>db_item\<close>, lines 220-241.\<close>

definition make_db_item :: "env \<Rightarrow> receipt_data \<Rightarrow> db_item" where
  "make_db_item en rd =
     \<lparr>db_receipt_id = rd_receipt_id rd,
      db_date = rd_date rd,
      db_vendor = rd_vendor rd,
      db_total = rd_total rd,
      db_items = map item_for_db (rd_items rd),
      db_s3_path = rd_s3_path rd,
      db_processed_timestamp = now_iso en\<rparr>"

text \<open>
  Lines 209-251. \<open>put_item\<close> creates the item or replaces the one with the same
  partition and sort key; when it raises, the table is unchanged and the exception is
  raised again (line 251).
\<close>

definition store_receipt_in_dynamodb ::
  "env \<Rightarrow> receipt_data \<Rightarrow> json \<Rightarrow> string \<Rightarrow> world \<Rightarrow> (exn + unit) \<times> world" where
  "store_receipt_in_dynamodb en rd bucket key w =
     (let item = make_db_item en rd;
          w' = w\<lparr>calls := calls w @ [PutItem (DYNAMODB_TABLE en) item]\<rparr>
      in case put_item en (DYNAMODB_TABLE en) item of
           Some e \<Rightarrow> (Inl e, w')
         | None \<Rightarrow>
             (Inr (), w'\<lparr>table := (table w')((db_receipt_id item, db_date item) \<mapsto> item)\<rparr>))"

subsection \<open>send_email_notification\<close>

text \<open>One \<open><li>\<close> line, lines 267-270.\<close>

definition item_html :: "pydict \<Rightarrow> ftext" where
  "item_html item =
     [Lit ''<li>'', StrOf (item_get item ''name'' (JStr ''Unknown Item'')),
      Lit '' - $'', StrOf (item_get item ''price'' (JStr ''N/A'')),
      Lit '' x '', StrOf (item_get item ''quantity'' (JStr ''1'')),
      Lit ''</li>'']"

text \<open>
  Lines 265-274. Every item adds a non-empty literal, so \<open>items_html\<close> is the empty
  string exactly when there is no item.
\<close>

definition items_html :: "receipt_data \<Rightarrow> ftext" where
  "items_html rd =
     (let h = concat (map item_html (rd_items rd))
      in if h = [] then [Lit ''<li>No items detected</li>''] else h)"

text \<open>
  The template of lines 280-298. The three pictographs of the source are written as
  their UTF-8 bytes.
\<close>

definition html_body :: "receipt_data \<Rightarrow> ftext" where
  "html_body rd =
     [Lit (''\<newline>        <html>\<newline>        <body>\<newline>            <h2>''
           @ [CHR 0xF0, CHR 0x9F, CHR 0x93, CHR 0xA7]
           @ '' Receipt Processing Notification</h2>\<newline>''
           @ ''            <p><strong>Receipt ID:</strong> ''),
      StrOf (JStr (rd_receipt_id rd)),
      Lit ''</p>\<newline>            <p><strong>Vendor:</strong> '',
      StrOf (rd_vendor rd),
      Lit ''</p>\<newline>            <p><strong>Date:</strong> '',
      StrOf (rd_date rd),
      Lit ''</p>\<newline>            <p><strong>Total Amount:</strong> $'',
      StrOf (rd_total rd),
      Lit ''</p>\<newline>            <p><strong>S3 Location:</strong> '']
     @ rd_s3_path rd
     @ [Lit (''</p>\<newline>\<newline>            <h3>''
             @ [CHR 0xF0, CHR 0x9F, CHR 0x93, CHR 0x8B]
             @ '' Items:</h3>\<newline>            <ul>\<newline>                '')]
     @ items_html rd
     @ [Lit (''\<newline>            </ul>\<newline>\<newline>            <p>''
             @ [CHR 0xE2, CHR 0x9C, CHR 0x85]
             @ '' The receipt has been processed and stored in DynamoDB.</p>\<newline>''
             @ ''        </body>\<newline>        </html>\<newline>        '')]"

text \<open>The arguments of \<open>ses.send_email\<close>, lines 303-318.\<close>

definition make_email :: "env \<Rightarrow> receipt_data \<Rightarrow> email" where
  "make_email en rd =
     \<lparr>em_source = SES_SENDER_EMAIL en,
      em_to_addresses = [SES_RECIPIENT_EMAIL en],
      em_subject = [Lit ''Receipt Processed: '', StrOf (rd_vendor rd),
                    Lit '' - $'', StrOf (rd_total rd)],
      em_html = html_body rd\<rparr>"

text \<open>The body of the \<open>try\<close>, lines 261-320.\<close>

definition send_email_try :: "env \<Rightarrow> receipt_data \<Rightarrow> world \<Rightarrow> (exn + unit) \<times> world" where
  "send_email_try en rd w =
     (let m = make_email en rd;
          w' = w\<lparr>calls := calls w @ [SendEmail m]\<rparr>
      in case send_email en m of
           Some e \<Rightarrow> (Inl e, w')
         | None \<Rightarrow> (Inr (), w'))"

text \<open>
  Lines 260-325. The handler of line 322 catches every exception of the body, prints
  two lines and returns: the function has no exceptional result.
\<close>

definition send_email_notification :: "env \<Rightarrow> receipt_data \<Rightarrow> world \<Rightarrow> world" where
  "send_email_notification en rd w =
     (case send_email_try en rd w of
        (Inl e, w') \<Rightarrow> w'
      | (Inr u, w') \<Rightarrow> w')"

subsection \<open>lambda_handler\<close>

datatype subscript = Key string | Index0

fun py_subscript :: "json \<Rightarrow> subscript \<Rightarrow> exn + json" where
  "py_subscript v (Key k) = py_getitem v k"
| "py_subscript v Index0 = py_getitem0 v"

text \<open>A chain of subscripts \<open>v[a][b]...\<close>, evaluated from the left.\<close>

fun py_path :: "json \<Rightarrow> subscript list \<Rightarrow> exn + json" where
  "py_path v [] = Inr v"
| "py_path v (s # ss) =
     (case py_subscript v s of Inl e \<Rightarrow> Inl e | Inr v' \<Rightarrow> py_path v' ss)"

text \<open>
  \<open>urllib.parse.unquote_plus(v)\<close> starts with \<open>v.replace('+', ' ')\<close>, which only a
  string has; on a string it decodes (field \<open>unquote\<close> of the environment) and
  never raises.
\<close>

fun unquote_plus :: "env \<Rightarrow> json \<Rightarrow> exn + string" where
  "unquote_plus en (JStr s) = Inr (unquote en s)"
| "unquote_plus en v = Inl AttributeError"

text \<open>Lines 43-47: the bucket and the decoded key named by the event.\<close>

definition event_object :: "env \<Rightarrow> json \<Rightarrow> exn + json \<times> string" where
  "event_object en event =
     (case py_path event [Key ''Records'', Index0, Key ''s3'', Key ''bucket'', Key ''name''] of
        Inl e \<Rightarrow> Inl e
      | Inr bucket \<Rightarrow>
          (case py_path event [Key ''Records'', Index0, Key ''s3'', Key ''object'', Key ''key''] of
             Inl e \<Rightarrow> Inl e
           | Inr k \<Rightarrow>
               (case unquote_plus en k of
                  Inl e \<Rightarrow> Inl e
                | Inr key \<Rightarrow> Inr (bucket, key))))"

text \<open>Lines 55-60: the object is checked, and a failure is raised as a new exception.\<close>

definition verify_object :: "env \<Rightarrow> json \<Rightarrow> string \<Rightarrow> world \<Rightarrow> (exn + unit) \<times> world" where
  "verify_object en bucket key w =
     (let w' = w\<lparr>calls := calls w @ [HeadObject bucket key]\<rparr>
      in case head_object en bucket key of
           Some e \<Rightarrow>
             (Inl (PyException [Lit ''Unable to access object '', StrOf (JStr key),
                                Lit '' in bucket '', StrOf bucket, Lit '': '', StrExn e]), w')
         | None \<Rightarrow> (Inr (), w'))"

text \<open>The body of the outer \<open>try\<close>, lines 43-72.\<close>

definition pipeline :: "env \<Rightarrow> json \<Rightarrow> world \<Rightarrow> (exn + unit) \<times> world" where
  "pipeline en event w =
     (case event_object en event of
        Inl e \<Rightarrow> (Inl e, w)
      | Inr (bucket, key) \<Rightarrow>
          (case verify_object en bucket key w of
             (Inl e, w1) \<Rightarrow> (Inl e, w1)
           | (Inr u, w1) \<Rightarrow>
               (case process_receipt_with_textract en bucket key w1 of
                  (Inl e, w2) \<Rightarrow> (Inl e, w2)
                | (Inr rd, w2) \<Rightarrow>
                    (case store_receipt_in_dynamodb en rd bucket key w2 of
                       (Inl e, w3) \<Rightarrow> (Inl e, w3)
                     | (Inr u', w3) \<Rightarrow> (Inr (), send_email_notification en rd w3)))))"

text \<open>
  Lines 37-86. The field \<open>body\<close> holds the text given to \<open>json.dumps\<close>, which turns
  a string into a string.
\<close>

definition lambda_handler :: "env \<Rightarrow> json \<Rightarrow> world \<Rightarrow> response \<times> world" where
  "lambda_handler en event w =
     (case pipeline en event w of
        (Inr u, w') \<Rightarrow>
          (\<lparr>statusCode = 200, body = [Lit ''Receipt processed successfully!'']\<rparr>, w')
      | (Inl e, w') \<Rightarrow>
          (\<lparr>statusCode = 500, body = [Lit ''Error: '', StrExn e]\<rparr>, w'))"

subsection \<open>The line items the mapper visits\<close>

text \<open>
  The loops of lines 174-176 visit, in order, the elements of \<open>LineItems\<close> of every
  group of the first expense document. The functions below name that list, and tell
  whether a line item carries a field whose type text is \<open>ITEM\<close>. Where the mapper
  would raise they give the empty list or \<open>False\<close>; the theorems use them only on
  answers the mapper accepts.
\<close>

definition group_line_items :: "json \<Rightarrow> json list" where
  "group_line_items grp =
     (case py_contains ''LineItems'' grp of
        Inr True \<Rightarrow>
          (case py_getitem grp ''LineItems'' of
             Inr ls \<Rightarrow> (case py_iter ls of Inr lis \<Rightarrow> lis | Inl e \<Rightarrow> [])
           | Inl e \<Rightarrow> [])
      | Inr False \<Rightarrow> []
      | Inl e \<Rightarrow> [])"

definition doc_line_items :: "json \<Rightarrow> json list" where
  "doc_line_items expense_doc =
     (case py_contains ''LineItemGroups'' expense_doc of
        Inr True \<Rightarrow>
          (case py_getitem expense_doc ''LineItemGroups'' of
             Inr gs \<Rightarrow>
               (case py_iter gs of
                  Inr groups \<Rightarrow> concat (map group_line_items groups)
                | Inl e \<Rightarrow> [])
           | Inl e \<Rightarrow> [])
      | Inr False \<Rightarrow> []
      | Inl e \<Rightarrow> [])"

definition response_line_items :: "json \<Rightarrow> json list" where
  "response_line_items resp =
     (case py_contains ''ExpenseDocuments'' resp of
        Inr True \<Rightarrow>
          (case py_getitem resp ''ExpenseDocuments'' of
             Inr docs \<Rightarrow>
               if \<not> py_truthy docs then []
               else (case py_getitem0 docs of
                       Inr expense_doc \<Rightarrow> doc_line_items expense_doc
                     | Inl e \<Rightarrow> [])
           | Inl e \<Rightarrow> [])
      | Inr False \<Rightarrow> []
      | Inl e \<Rightarrow> [])"

definition has_item_field :: "json \<Rightarrow> bool" where
  "has_item_field li =
     (case py_get li ''LineItemExpenseFields'' (JList []) of
        Inr fs \<Rightarrow>
          (case py_iter fs of
             Inr flds \<Rightarrow> (\<exists>f \<in> set flds. field_type f = Inr (JStr ''ITEM''))
           | Inl e \<Rightarrow> False)
      | Inl e \<Rightarrow> False)"

text \<open>
  The dictionary \<open>item\<close> that lines 177-190 build from one line item (empty where
  building it would raise).
\<close>

definition line_item_dict :: "json \<Rightarrow> pydict" where
  "line_item_dict li =
     (case py_get li ''LineItemExpenseFields'' (JList []) of
        Inr fs \<Rightarrow>
          (case py_iter fs of
             Inr flds \<Rightarrow>
               (case for_loop item_field flds [] of Inr item \<Rightarrow> item | Inl e \<Rightarrow> [])
           | Inl e \<Rightarrow> [])
      | Inl e \<Rightarrow> [])"

subsection \<open>Concrete inputs\<close>

text \<open>A field of the Textract answer with a type text and a detected text.\<close>

definition expense_field :: "string \<Rightarrow> string \<Rightarrow> json" where
  "expense_field t v =
     JDict [(''Type'', JDict [(''Text'', JStr t)]),
            (''ValueDetection'', JDict [(''Text'', JStr v)])]"

text \<open>The answer of the scenario of the specification: a receipt of Cafe X.\<close>

definition cafe_response :: json where
  "cafe_response =
     JDict [(''ExpenseDocuments'',
       JList [JDict
         [(''SummaryFields'',
             JList [expense_field ''TOTAL'' ''12.50'',
                    expense_field ''VENDOR_NAME'' ''Cafe X'',
                    expense_field ''INVOICE_RECEIPT_DATE'' ''2024-03-01'']),
          (''LineItemGroups'',
             JList [JDict [(''LineItems'',
               JList [JDict [(''LineItemExpenseFields'',
                 JList [expense_field ''ITEM'' ''Coffee'',
                        expense_field ''PRICE'' ''4.00'',
                        expense_field ''QUANTITY'' ''2''])]])]])]])]"

text \<open>
  An answer with two line items: the first has only a price, the second has an
  \<open>ITEM\<close> field with no \<open>ValueDetection\<close> part.
\<close>

definition bare_response :: json where
  "bare_response =
     JDict [(''ExpenseDocuments'',
       JList [JDict
         [(''LineItemGroups'',
             JList [JDict [(''LineItems'',
               JList [JDict [(''LineItemExpenseFields'',
                        JList [expense_field ''PRICE'' ''1.00''])],
                      JDict [(''LineItemExpenseFields'',
                        JList [JDict [(''Type'', JDict [(''Text'', JStr ''ITEM'')])]])]])]])]])]"

text \<open>The event S3 sends for \<open>cafe.jpg\<close> in the bucket \<open>receipts\<close>.\<close>

definition s3_event :: "string \<Rightarrow> string \<Rightarrow> json" where
  "s3_event b k =
     JDict [(''Records'',
       JList [JDict [(''s3'',
         JDict [(''bucket'', JDict [(''name'', JStr b)]),
                (''object'', JDict [(''key'', JStr k)])])]])]"

definition cafe_event :: json where
  "cafe_event = s3_event ''receipts'' ''cafe.jpg''"

text \<open>
  An environment in which every call succeeds and Textract gives the answer above.
  The key \<open>cafe.jpg\<close> has nothing to decode.
\<close>

definition cafe_env :: env where
  "cafe_env =
     \<lparr>DYNAMODB_TABLE = ''Table_name'',
      SES_SENDER_EMAIL = ''sender_email'',
      SES_RECIPIENT_EMAIL = ''receiver_email'',
      uuid4 = ''3f2b8c1e-5d4a-4e6f-9a7b-0c1d2e3f4a5b'',
      today = ''2024-03-05'',
      now_iso = ''2024-03-05T10:15:30.123456'',
      unquote = (\<lambda>s. s),
      head_object = (\<lambda>b k. None),
      analyze_expense = (\<lambda>b k. Inr cafe_response),
      put_item = (\<lambda>t i. None),
      send_email = (\<lambda>m. None)\<rparr>"

definition empty_world :: world where
  "empty_world = \<lparr>calls = [], table = Map.empty\<rparr>"

text \<open>The record the mapper builds from \<open>cafe_response\<close> in \<open>cafe_env\<close>.\<close>

definition cafe_receipt :: receipt_data where
  "cafe_receipt =
     \<lparr>rd_receipt_id = ''3f2b8c1e-5d4a-4e6f-9a7b-0c1d2e3f4a5b'',
      rd_date = JStr ''2024-03-01'',
      rd_vendor = JStr ''Cafe X'',
      rd_total = JStr ''12.50'',
      rd_items = [[(''name'', JStr ''Coffee''), (''price'', JStr ''4.00''),
                   (''quantity'', JStr ''2'')]],
      rd_s3_path = [Lit ''s3://'', StrOf (JStr ''receipts''), Lit ''/'',
                    StrOf (JStr ''cafe.jpg'')]\<rparr>"


section \<open>Properties\<close>

subsection \<open>The loops of the mapper\<close>

lemma item_field_name:
  "item_field item f = Inr item' \<Longrightarrow>
   (map_of item' ''name'' \<noteq> None) =
   (map_of item ''name'' \<noteq> None \<or> field_type f = Inr (JStr ''ITEM''))"
  by (auto simp: item_field_def update_conv' split: sum.splits if_splits)

lemma item_fields_name:
  "for_loop item_field fs item = Inr item' \<Longrightarrow>
   (map_of item' ''name'' \<noteq> None) =
   (map_of item ''name'' \<noteq> None \<or> (\<exists>f \<in> set fs. field_type f = Inr (JStr ''ITEM'')))"
proof (induction fs arbitrary: item)
  case Nil
  then show ?case by simp
next
  case (Cons f fs)
  from Cons.prems obtain mid where
    step: "item_field item f = Inr mid" and rest: "for_loop item_field fs mid = Inr item'"
    by (auto split: sum.splits)
  from Cons.IH [OF rest] item_field_name [OF step] show ?case by auto
qed

lemma line_item_appends:
  "line_item items li = Inr items' \<Longrightarrow>
   items' = items @ (if has_item_field li then [line_item_dict li] else [])"
proof -
  assume run: "line_item items li = Inr items'"
  then obtain fs flds item where
    get: "py_get li ''LineItemExpenseFields'' (JList []) = Inr fs"
    and iter: "py_iter fs = Inr flds"
    and loop: "for_loop item_field flds [] = Inr item"
    and res: "items' = (if map_of item ''name'' \<noteq> None then items @ [item] else items)"
    by (auto simp: line_item_def split: sum.splits)
  from item_fields_name [OF loop]
  have "(map_of item ''name'' \<noteq> None) = has_item_field li"
    by (simp add: has_item_field_def get iter)
  moreover have "line_item_dict li = item"
    by (simp add: line_item_dict_def get iter loop)
  ultimately show ?thesis using res by simp
qed

lemma line_items_append:
  "for_loop line_item lis items = Inr items' \<Longrightarrow>
   items' = items @ map line_item_dict (filter has_item_field lis)"
proof (induction lis arbitrary: items)
  case Nil
  then show ?case by simp
next
  case (Cons li lis)
  from Cons.prems obtain mid where
    step: "line_item items li = Inr mid" and rest: "for_loop line_item lis mid = Inr items'"
    by (auto split: sum.splits)
  from Cons.IH [OF rest] line_item_appends [OF step] show ?case by simp
qed

lemma line_item_group_appends:
  "line_item_group items grp = Inr items' \<Longrightarrow>
   items' = items @ map line_item_dict (filter has_item_field (group_line_items grp))"
  by (auto simp: line_item_group_def group_line_items_def split: sum.splits bool.splits
      dest: line_items_append)

lemma line_item_group_loop_appends:
  "for_loop line_item_group gs items = Inr items' \<Longrightarrow>
   items' =
   items @ map line_item_dict (filter has_item_field (concat (map group_line_items gs)))"
proof (induction gs arbitrary: items)
  case Nil
  then show ?case by simp
next
  case (Cons g gs)
  from Cons.prems obtain mid where
    step: "line_item_group items g = Inr mid"
    and rest: "for_loop line_item_group gs mid = Inr items'"
    by (auto split: sum.splits)
  from Cons.IH [OF rest] line_item_group_appends [OF step] show ?case by simp
qed

lemma line_item_groups_appends:
  "line_item_groups items doc = Inr items' \<Longrightarrow>
   items' = items @ map line_item_dict (filter has_item_field (doc_line_items doc))"
  by (auto simp: line_item_groups_def doc_line_items_def split: sum.splits bool.splits
      dest: line_item_group_loop_appends)

lemma summary_field_keeps:
  "summary_field rd f = Inr rd' \<Longrightarrow>
   rd_items rd' = rd_items rd \<and> rd_receipt_id rd' = rd_receipt_id rd"
  by (auto simp: summary_field_def split: sum.splits if_splits)

lemma summary_loop_keeps:
  "for_loop summary_field fs rd = Inr rd' \<Longrightarrow>
   rd_items rd' = rd_items rd \<and> rd_receipt_id rd' = rd_receipt_id rd"
proof (induction fs arbitrary: rd)
  case Nil
  then show ?case by simp
next
  case (Cons f fs)
  from Cons.prems obtain mid where
    step: "summary_field rd f = Inr mid" and rest: "for_loop summary_field fs mid = Inr rd'"
    by (auto split: sum.splits)
  from Cons.IH [OF rest] summary_field_keeps [OF step] show ?case by simp
qed

lemma summary_fields_keeps:
  "summary_fields rd doc = Inr rd' \<Longrightarrow>
   rd_items rd' = rd_items rd \<and> rd_receipt_id rd' = rd_receipt_id rd"
  by (auto simp: summary_fields_def split: sum.splits bool.splits dest: summary_loop_keeps)

lemma expense_document_items:
  "expense_document rd doc = Inr rd' \<Longrightarrow>
   rd_items rd' =
   rd_items rd @ map line_item_dict (filter has_item_field (doc_line_items doc))"
  by (auto simp: expense_document_def split: sum.splits
      dest!: summary_fields_keeps line_item_groups_appends)


lemma receipt_items:
  "receipt_of_response en b k resp = Inr rd \<Longrightarrow>
   rd_items rd = map line_item_dict (filter has_item_field (response_line_items resp))"
  by (auto simp: receipt_of_response_def response_line_items_def initial_receipt_def Let_def
      split: sum.splits bool.splits if_splits dest!: expense_document_items)


lemmas mapper_defs =
  receipt_of_response_def initial_receipt_def expense_document_def summary_fields_def
  summary_field_def field_type_def field_value_def line_item_groups_def
  line_item_group_def line_item_def item_field_def

lemmas handler_defs =
  lambda_handler_def pipeline_def verify_object_def process_receipt_with_textract_def
  store_receipt_in_dynamodb_def send_email_notification_def send_email_try_def Let_def

subsection \<open>The concrete run\<close>

lemma cafe_mapping:
  "receipt_of_response en bucket key cafe_response =
     Inr \<lparr>rd_receipt_id = uuid4 en,
          rd_date = JStr ''2024-03-01'',
          rd_vendor = JStr ''Cafe X'',
          rd_total = JStr ''12.50'',
          rd_items = [[(''name'', JStr ''Coffee''), (''price'', JStr ''4.00''),
                       (''quantity'', JStr ''2'')]],
          rd_s3_path = [Lit ''s3://'', StrOf bucket, Lit ''/'', StrOf (JStr key)]\<rparr>"
  by (simp add: mapper_defs cafe_response_def expense_field_def)

lemma cafe_receipt_mapped:
  "receipt_of_response cafe_env (JStr ''receipts'') ''cafe.jpg'' cafe_response = Inr cafe_receipt"
  by (simp add: cafe_mapping cafe_receipt_def cafe_env_def)

lemma s3_event_object:
  "event_object en (s3_event b k) = Inr (JStr b, unquote en k)"
  by (simp add: event_object_def s3_event_def)

lemma bare_mapping:
  "receipt_of_response en bucket key bare_response =
     Inr ((initial_receipt en bucket key)\<lparr>rd_items := [[(''name'', JStr [])]]\<rparr>)"
  by (simp add: mapper_defs bare_response_def expense_field_def)

lemma bare_line_items:
  "response_line_items bare_response =
     [JDict [(''LineItemExpenseFields'', JList [expense_field ''PRICE'' ''1.00''])],
      JDict [(''LineItemExpenseFields'',
              JList [JDict [(''Type'', JDict [(''Text'', JStr ''ITEM'')])]])]]"
  by (simp add: response_line_items_def doc_line_items_def group_line_items_def
      bare_response_def)

lemma bare_has_item:
  "\<not> has_item_field (JDict [(''LineItemExpenseFields'', JList [expense_field ''PRICE'' ''1.00''])])"
  "has_item_field (JDict [(''LineItemExpenseFields'',
              JList [JDict [(''Type'', JDict [(''Text'', JStr ''ITEM'')])]])])"
  by (simp_all add: has_item_field_def field_type_def expense_field_def)

subsection \<open>The outcome of the handler, stage by stage\<close>

lemma handler_bad_event:
  "event_object en event = Inl e \<Longrightarrow>
   lambda_handler en event w =
     (\<lparr>statusCode = 500, body = [Lit ''Error: '', StrExn e]\<rparr>, w)"
  by (simp add: lambda_handler_def pipeline_def)

lemma handler_no_object:
  "event_object en event = Inr (bucket, key) \<Longrightarrow> head_object en bucket key = Some e \<Longrightarrow>
   lambda_handler en event w =
     (\<lparr>statusCode = 500,
       body = [Lit ''Error: '',
               StrExn (PyException [Lit ''Unable to access object '', StrOf (JStr key),
                                    Lit '' in bucket '', StrOf bucket, Lit '': '',
                                    StrExn e])]\<rparr>,
      w\<lparr>calls := calls w @ [HeadObject bucket key]\<rparr>)"
  by (simp add: lambda_handler_def pipeline_def verify_object_def)

lemma handler_textract_raises:
  "event_object en event = Inr (bucket, key) \<Longrightarrow> head_object en bucket key = None \<Longrightarrow>
   analyze_expense en bucket key = Inl e \<Longrightarrow>
   lambda_handler en event w =
     (\<lparr>statusCode = 500, body = [Lit ''Error: '', StrExn e]\<rparr>,
      w\<lparr>calls := calls w @ [HeadObject bucket key, AnalyzeExpense bucket key]\<rparr>)"
  by (simp add: handler_defs)

lemma handler_mapper_raises:
  "event_object en event = Inr (bucket, key) \<Longrightarrow> head_object en bucket key = None \<Longrightarrow>
   analyze_expense en bucket key = Inr resp \<Longrightarrow>
   receipt_of_response en bucket key resp = Inl e \<Longrightarrow>
   lambda_handler en event w =
     (\<lparr>statusCode = 500, body = [Lit ''Error: '', StrExn e]\<rparr>,
      w\<lparr>calls := calls w @ [HeadObject bucket key, AnalyzeExpense bucket key]\<rparr>)"
  by (simp add: handler_defs)

lemma handler_store_raises:
  "event_object en event = Inr (bucket, key) \<Longrightarrow> head_object en bucket key = None \<Longrightarrow>
   analyze_expense en bucket key = Inr resp \<Longrightarrow>
   receipt_of_response en bucket key resp = Inr rd \<Longrightarrow>
   put_item en (DYNAMODB_TABLE en) (make_db_item en rd) = Some e \<Longrightarrow>
   lambda_handler en event w =
     (\<lparr>statusCode = 500, body = [Lit ''Error: '', StrExn e]\<rparr>,
      w\<lparr>calls := calls w @ [HeadObject bucket key, AnalyzeExpense bucket key,
                            PutItem (DYNAMODB_TABLE en) (make_db_item en rd)]\<rparr>)"
  by (simp add: handler_defs)

lemma handler_stored:
  "event_object en event = Inr (bucket, key) \<Longrightarrow> head_object en bucket key = None \<Longrightarrow>
   analyze_expense en bucket key = Inr resp \<Longrightarrow>
   receipt_of_response en bucket key resp = Inr rd \<Longrightarrow>
   put_item en (DYNAMODB_TABLE en) (make_db_item en rd) = None \<Longrightarrow>
   lambda_handler en event w =
     (\<lparr>statusCode = 200, body = [Lit ''Receipt processed successfully!'']\<rparr>,
      w\<lparr>calls := calls w @ [HeadObject bucket key, AnalyzeExpense bucket key,
                            PutItem (DYNAMODB_TABLE en) (make_db_item en rd),
                            SendEmail (make_email en rd)],
        table := (table w)((rd_receipt_id rd, rd_date rd) \<mapsto> make_db_item en rd)\<rparr>)"
  by (cases "send_email en (make_email en rd)") (simp_all add: handler_defs make_db_item_def)

subsection \<open>The claims\<close>

text \<open>
  C1. When the object check, the analysis and the store write succeed and the call to
  SES raises, the body of the notifier's \<open>try\<close> ends with that exception, the
  notifier returns all the same, and the handler answers with status code 200. The
  four AWS calls were made and the item is in the table.
\<close>

theorem mail_failure_still_success:
  assumes "event_object en event = Inr (bucket, key)"
    and "head_object en bucket key = None"
    and "analyze_expense en bucket key = Inr resp"
    and "receipt_of_response en bucket key resp = Inr rd"
    and "put_item en (DYNAMODB_TABLE en) (make_db_item en rd) = None"
    and "send_email en (make_email en rd) = Some e"
  shows "fst (send_email_try en rd w') = Inl e \<and>
    lambda_handler en event w =
      (\<lparr>statusCode = 200, body = [Lit ''Receipt processed successfully!'']\<rparr>,
       w\<lparr>calls := calls w @ [HeadObject bucket key, AnalyzeExpense bucket key,
                             PutItem (DYNAMODB_TABLE en) (make_db_item en rd),
                             SendEmail (make_email en rd)],
         table := (table w)((rd_receipt_id rd, rd_date rd) \<mapsto> make_db_item en rd)\<rparr>)"
  using assms by (simp add: handler_defs make_db_item_def)

theorem mail_failure_still_success_witness:
  "statusCode (fst (lambda_handler
      (cafe_env\<lparr>send_email := (\<lambda>m. Some (ClientError ''MessageRejected''))\<rparr>)
      cafe_event empty_world)) = 200 \<and>
   fst (send_email_try
      (cafe_env\<lparr>send_email := (\<lambda>m. Some (ClientError ''MessageRejected''))\<rparr>)
      cafe_receipt empty_world) = Inl (ClientError ''MessageRejected'')"
proof -
  let ?en = "cafe_env\<lparr>send_email := (\<lambda>m. Some (ClientError ''MessageRejected''))\<rparr>"
  have ev: "event_object ?en cafe_event = Inr (JStr ''receipts'', ''cafe.jpg'')"
    by (simp add: cafe_event_def s3_event_object cafe_env_def)
  have ho: "head_object ?en (JStr ''receipts'') ''cafe.jpg'' = None"
    by (simp add: cafe_env_def)
  have an: "analyze_expense ?en (JStr ''receipts'') ''cafe.jpg'' = Inr cafe_response"
    by (simp add: cafe_env_def)
  have rc: "receipt_of_response ?en (JStr ''receipts'') ''cafe.jpg'' cafe_response
      = Inr cafe_receipt"
    by (simp add: cafe_mapping cafe_receipt_def cafe_env_def)
  have pu: "put_item ?en (DYNAMODB_TABLE ?en) (make_db_item ?en cafe_receipt) = None"
    by (simp add: cafe_env_def)
  have se: "send_email ?en (make_email ?en cafe_receipt) = Some (ClientError ''MessageRejected'')"
    by simp
  from mail_failure_still_success [OF ev ho an rc pu se, of empty_world empty_world]
  show ?thesis by simp
qed

text \<open>
  C2. When the event names an object and \<open>head_object\<close> raises, the handler answers
  with status code 500, and the only AWS call of the invocation is that
  \<open>head_object\<close>: Textract, DynamoDB and SES are not called and the table is as it
  was.
\<close>

theorem inaccessible_object_aborts:
  assumes "event_object en event = Inr (bucket, key)"
    and "head_object en bucket key = Some e"
  shows "lambda_handler en event w =
      (\<lparr>statusCode = 500,
        body = [Lit ''Error: '',
                StrExn (PyException [Lit ''Unable to access object '', StrOf (JStr key),
                                     Lit '' in bucket '', StrOf bucket, Lit '': '',
                                     StrExn e])]\<rparr>,
       w\<lparr>calls := calls w @ [HeadObject bucket key]\<rparr>)"
  using assms by (simp add: lambda_handler_def pipeline_def verify_object_def)

theorem inaccessible_object_aborts_witness:
  "fst (lambda_handler (cafe_env\<lparr>head_object := (\<lambda>b k. Some (ClientError ''404''))\<rparr>)
      cafe_event empty_world) =
     \<lparr>statusCode = 500,
      body = [Lit ''Error: '',
              StrExn (PyException [Lit ''Unable to access object '', StrOf (JStr ''cafe.jpg''),
                                   Lit '' in bucket '', StrOf (JStr ''receipts''), Lit '': '',
                                   StrExn (ClientError ''404'')])]\<rparr> \<and>
   calls (snd (lambda_handler (cafe_env\<lparr>head_object := (\<lambda>b k. Some (ClientError ''404''))\<rparr>)
      cafe_event empty_world)) = [HeadObject (JStr ''receipts'') ''cafe.jpg'']"
proof -
  let ?en = "cafe_env\<lparr>head_object := (\<lambda>b k. Some (ClientError ''404''))\<rparr>"
  have ev: "event_object ?en cafe_event = Inr (JStr ''receipts'', ''cafe.jpg'')"
    by (simp add: cafe_event_def s3_event_object cafe_env_def)
  have ho: "head_object ?en (JStr ''receipts'') ''cafe.jpg'' = Some (ClientError ''404'')"
    by simp
  from inaccessible_object_aborts [OF ev ho, of empty_world]
  show ?thesis by (simp add: empty_world_def)
qed

text \<open>
  C3. An answer of Textract with no expense document (the key \<open>ExpenseDocuments\<close>
  absent, or its list empty) gives the record with its four defaults: the date of
  processing, vendor \<open>Unknown\<close>, total \<open>0.00\<close> and no item. The mapper returns the
  record; it raises nothing.
\<close>

theorem no_expense_documents_defaults:
  assumes "map_of kvs ''ExpenseDocuments'' = None \<or>
           map_of kvs ''ExpenseDocuments'' = Some (JList [])"
  shows "receipt_of_response en bucket key (JDict kvs) =
      Inr \<lparr>rd_receipt_id = uuid4 en,
           rd_date = JStr (today en),
           rd_vendor = JStr ''Unknown'',
           rd_total = JStr ''0.00'',
           rd_items = [],
           rd_s3_path = [Lit ''s3://'', StrOf bucket, Lit ''/'', StrOf (JStr key)]\<rparr>"
  using assms by (auto simp: receipt_of_response_def initial_receipt_def)

theorem no_expense_documents_defaults_witness:
  "receipt_of_response cafe_env (JStr ''receipts'') ''cafe.jpg''
      (JDict [(''ExpenseDocuments'', JList [])]) =
     Inr \<lparr>rd_receipt_id = ''3f2b8c1e-5d4a-4e6f-9a7b-0c1d2e3f4a5b'',
          rd_date = JStr ''2024-03-05'',
          rd_vendor = JStr ''Unknown'',
          rd_total = JStr ''0.00'',
          rd_items = [],
          rd_s3_path = [Lit ''s3://'', StrOf (JStr ''receipts''), Lit ''/'',
                        StrOf (JStr ''cafe.jpg'')]\<rparr> \<and>
   receipt_of_response cafe_env (JStr ''receipts'') ''cafe.jpg'' (JDict []) =
     receipt_of_response cafe_env (JStr ''receipts'') ''cafe.jpg''
      (JDict [(''ExpenseDocuments'', JList [])])"
proof -
  have present: "map_of [(''ExpenseDocuments'', JList [])] ''ExpenseDocuments'' = None \<or>
      map_of [(''ExpenseDocuments'', JList [])] ''ExpenseDocuments'' = Some (JList [])"
    by simp
  have absent: "map_of ([] :: pydict) ''ExpenseDocuments'' = None \<or>
      map_of ([] :: pydict) ''ExpenseDocuments'' = Some (JList [])"
    by simp
  from no_expense_documents_defaults [OF present, of cafe_env "JStr ''receipts''" "''cafe.jpg''"]
    no_expense_documents_defaults [OF absent, of cafe_env "JStr ''receipts''" "''cafe.jpg''"]
  show ?thesis by (simp add: cafe_env_def)
qed

text \<open>
  C4. When the mapper returns a record, its items are built from exactly the visited
  line items that have a field of type \<open>ITEM\<close>, in order; the others are left out.
  So there are at most as many items as line items, and fewer as soon as one line
  item has no such field. The line items visited are those of the first expense
  document; the mapper reads no other document.
\<close>

theorem items_need_ITEM_field:
  assumes "receipt_of_response en bucket key resp = Inr rd"
  shows "rd_items rd = map line_item_dict (filter has_item_field (response_line_items resp)) \<and>
    length (rd_items rd) \<le> length (response_line_items resp) \<and>
    ((\<exists>li \<in> set (response_line_items resp). \<not> has_item_field li) \<longrightarrow>
       length (rd_items rd) < length (response_line_items resp))"
proof -
  have eq: "rd_items rd = map line_item_dict (filter has_item_field (response_line_items resp))"
    using assms by (rule receipt_items)
  have le: "length (rd_items rd) \<le> length (response_line_items resp)"
    by (simp add: eq)
  have lt: "length (rd_items rd) < length (response_line_items resp)"
    if "\<exists>li \<in> set (response_line_items resp). \<not> has_item_field li"
    using that by (auto simp: eq intro: length_filter_less)
  from eq le lt show ?thesis by blast
qed

theorem items_need_ITEM_field_witness:
  "receipt_of_response cafe_env (JStr ''receipts'') ''tea.jpg'' bare_response =
     Inr ((initial_receipt cafe_env (JStr ''receipts'') ''tea.jpg'')
            \<lparr>rd_items := [[(''name'', JStr [])]]\<rparr>) \<and>
   length (response_line_items bare_response) = 2 \<and>
   (\<exists>li \<in> set (response_line_items bare_response). \<not> has_item_field li) \<and>
   length (rd_items ((initial_receipt cafe_env (JStr ''receipts'') ''tea.jpg'')
            \<lparr>rd_items := [[(''name'', JStr [])]]\<rparr>)) < length (response_line_items bare_response)"
proof -
  have run: "receipt_of_response cafe_env (JStr ''receipts'') ''tea.jpg'' bare_response =
     Inr ((initial_receipt cafe_env (JStr ''receipts'') ''tea.jpg'')
            \<lparr>rd_items := [[(''name'', JStr [])]]\<rparr>)"
    by (rule bare_mapping)
  have some: "\<exists>li \<in> set (response_line_items bare_response). \<not> has_item_field li"
    by (simp add: bare_line_items bare_has_item)
  from items_need_ITEM_field [OF run] some run show ?thesis
    by (simp add: bare_line_items)
qed

text \<open>
  C5. The scenario of the specification. For the answer \<open>cafe_response\<close> the mapper
  gives, in every environment, vendor \<open>Cafe X\<close>, date \<open>2024-03-01\<close>, total
  \<open>12.50\<close> and the one item Coffee, 4.00, 2, each the very string of the answer; and
  after the handler has run, the table holds that record under its two keys.
\<close>

theorem cafe_scenario:
  "receipt_of_response en bucket key cafe_response =
     Inr \<lparr>rd_receipt_id = uuid4 en,
          rd_date = JStr ''2024-03-01'',
          rd_vendor = JStr ''Cafe X'',
          rd_total = JStr ''12.50'',
          rd_items = [[(''name'', JStr ''Coffee''), (''price'', JStr ''4.00''),
                       (''quantity'', JStr ''2'')]],
          rd_s3_path = [Lit ''s3://'', StrOf bucket, Lit ''/'', StrOf (JStr key)]\<rparr> \<and>
   fst (lambda_handler cafe_env cafe_event empty_world) =
     \<lparr>statusCode = 200, body = [Lit ''Receipt processed successfully!'']\<rparr> \<and>
   table (snd (lambda_handler cafe_env cafe_event empty_world))
      (''3f2b8c1e-5d4a-4e6f-9a7b-0c1d2e3f4a5b'', JStr ''2024-03-01'') =
     Some \<lparr>db_receipt_id = ''3f2b8c1e-5d4a-4e6f-9a7b-0c1d2e3f4a5b'',
           db_date = JStr ''2024-03-01'',
           db_vendor = JStr ''Cafe X'',
           db_total = JStr ''12.50'',
           db_items = [[(''name'', JStr ''Coffee''), (''price'', JStr ''4.00''),
                        (''quantity'', JStr ''2'')]],
           db_s3_path = [Lit ''s3://'', StrOf (JStr ''receipts''), Lit ''/'',
                         StrOf (JStr ''cafe.jpg'')],
           db_processed_timestamp = ''2024-03-05T10:15:30.123456''\<rparr>"
proof -
  have ev: "event_object cafe_env cafe_event = Inr (JStr ''receipts'', ''cafe.jpg'')"
    by (simp add: cafe_event_def s3_event_object cafe_env_def)
  have env: "head_object cafe_env = (\<lambda>b k. None)"
    "analyze_expense cafe_env = (\<lambda>b k. Inr cafe_response)"
    "put_item cafe_env = (\<lambda>t i. None)" "send_email cafe_env = (\<lambda>m. None)"
    "now_iso cafe_env = ''2024-03-05T10:15:30.123456''"
    by (simp_all add: cafe_env_def)
  have run: "lambda_handler cafe_env cafe_event empty_world =
     (\<lparr>statusCode = 200, body = [Lit ''Receipt processed successfully!'']\<rparr>,
      empty_world\<lparr>calls := [HeadObject (JStr ''receipts'') ''cafe.jpg'',
                             AnalyzeExpense (JStr ''receipts'') ''cafe.jpg'',
                             PutItem (DYNAMODB_TABLE cafe_env) (make_db_item cafe_env cafe_receipt),
                             SendEmail (make_email cafe_env cafe_receipt)],
        table := (table empty_world)((rd_receipt_id cafe_receipt, rd_date cafe_receipt)
                    \<mapsto> make_db_item cafe_env cafe_receipt)\<rparr>)"
    by (simp add: handler_defs ev env cafe_receipt_mapped make_db_item_def empty_world_def)
  show ?thesis
    by (simp add: cafe_mapping run) (simp add: cafe_receipt_def make_db_item_def item_for_db_def item_get_def env)
qed

text \<open>
  C6. When the object check and the analysis succeed and \<open>put_item\<close> raises, the
  store writer ends with that exception, the handler answers with status code 500 and
  names the exception in the body, the table is unchanged, and the calls made are
  \<open>head_object\<close>, \<open>analyze_expense\<close> and \<open>put_item\<close>: no mail is sent.
\<close>

theorem store_failure_aborts:
  assumes "event_object en event = Inr (bucket, key)"
    and "head_object en bucket key = None"
    and "analyze_expense en bucket key = Inr resp"
    and "receipt_of_response en bucket key resp = Inr rd"
    and "put_item en (DYNAMODB_TABLE en) (make_db_item en rd) = Some e"
  shows "fst (store_receipt_in_dynamodb en rd bucket key w') = Inl e \<and>
    lambda_handler en event w =
      (\<lparr>statusCode = 500, body = [Lit ''Error: '', StrExn e]\<rparr>,
       w\<lparr>calls := calls w @ [HeadObject bucket key, AnalyzeExpense bucket key,
                             PutItem (DYNAMODB_TABLE en) (make_db_item en rd)]\<rparr>)"
  using assms by (simp add: handler_defs)

theorem store_failure_aborts_witness:
  "fst (lambda_handler
      (cafe_env\<lparr>put_item := (\<lambda>t i. Some (ClientError ''ServiceUnavailable''))\<rparr>)
      cafe_event empty_world) =
     \<lparr>statusCode = 500,
      body = [Lit ''Error: '', StrExn (ClientError ''ServiceUnavailable'')]\<rparr> \<and>
   length (calls (snd (lambda_handler
      (cafe_env\<lparr>put_item := (\<lambda>t i. Some (ClientError ''ServiceUnavailable''))\<rparr>)
      cafe_event empty_world))) = 3 \<and>
   table (snd (lambda_handler
      (cafe_env\<lparr>put_item := (\<lambda>t i. Some (ClientError ''ServiceUnavailable''))\<rparr>)
      cafe_event empty_world)) = Map.empty"
proof -
  let ?en = "cafe_env\<lparr>put_item := (\<lambda>t i. Some (ClientError ''ServiceUnavailable''))\<rparr>"
  have ev: "event_object ?en cafe_event = Inr (JStr ''receipts'', ''cafe.jpg'')"
    by (simp add: cafe_event_def s3_event_object cafe_env_def)
  have ho: "head_object ?en (JStr ''receipts'') ''cafe.jpg'' = None"
    by (simp add: cafe_env_def)
  have an: "analyze_expense ?en (JStr ''receipts'') ''cafe.jpg'' = Inr cafe_response"
    by (simp add: cafe_env_def)
  have rc: "receipt_of_response ?en (JStr ''receipts'') ''cafe.jpg'' cafe_response
      = Inr cafe_receipt"
    by (simp add: cafe_mapping cafe_receipt_def cafe_env_def)
  have pu: "put_item ?en (DYNAMODB_TABLE ?en) (make_db_item ?en cafe_receipt)
      = Some (ClientError ''ServiceUnavailable'')"
    by simp
  from store_failure_aborts [OF ev ho an rc pu, of empty_world empty_world]
  show ?thesis by (simp add: empty_world_def)
qed

text \<open>
  C7. The store writer makes one call, \<open>put_item\<close>, with an item that carries the
  timestamp of processing and in which every line item is a dictionary of exactly the
  keys \<open>name\<close>, \<open>price\<close>, \<open>quantity\<close>, each with the value of the record's line
  item or, where that has none, \<open>Unknown Item\<close>, \<open>0.00\<close>, \<open>1\<close>. When DynamoDB
  accepts the call, the table holds the item under the key (receipt_id, date) in place
  of whatever was there, and is otherwise unchanged.
\<close>

theorem store_writes_normalised_item:
  "snd (store_receipt_in_dynamodb en rd bucket key w) =
     (if put_item en (DYNAMODB_TABLE en) (make_db_item en rd) = None
      then w\<lparr>calls := calls w @ [PutItem (DYNAMODB_TABLE en) (make_db_item en rd)],
             table := (table w)((rd_receipt_id rd, rd_date rd) \<mapsto> make_db_item en rd)\<rparr>
      else w\<lparr>calls := calls w @ [PutItem (DYNAMODB_TABLE en) (make_db_item en rd)]\<rparr>) \<and>
   (put_item en (DYNAMODB_TABLE en) (make_db_item en rd) = None \<longrightarrow>
      fst (store_receipt_in_dynamodb en rd bucket key w) = Inr ()) \<and>
   db_processed_timestamp (make_db_item en rd) = now_iso en \<and>
   length (db_items (make_db_item en rd)) = length (rd_items rd) \<and>
   (\<forall>i < length (rd_items rd).
      db_items (make_db_item en rd) ! i =
        [(''name'', case map_of (rd_items rd ! i) ''name'' of
                      None \<Rightarrow> JStr ''Unknown Item'' | Some v \<Rightarrow> v),
         (''price'', case map_of (rd_items rd ! i) ''price'' of
                       None \<Rightarrow> JStr ''0.00'' | Some v \<Rightarrow> v),
         (''quantity'', case map_of (rd_items rd ! i) ''quantity'' of
                          None \<Rightarrow> JStr ''1'' | Some v \<Rightarrow> v)])"
  by (simp add: store_receipt_in_dynamodb_def make_db_item_def item_for_db_def item_get_def
      Let_def split: option.splits)

theorem store_writes_normalised_item_witness:
  "store_receipt_in_dynamodb cafe_env (cafe_receipt\<lparr>rd_items := [[(''name'', JStr ''Tea'')]]\<rparr>)
      (JStr ''receipts'') ''cafe.jpg'' empty_world =
     (Inr (),
      \<lparr>calls = [PutItem ''Table_name''
                 (make_db_item cafe_env (cafe_receipt\<lparr>rd_items := [[(''name'', JStr ''Tea'')]]\<rparr>))],
       table = [(''3f2b8c1e-5d4a-4e6f-9a7b-0c1d2e3f4a5b'', JStr ''2024-03-01'') \<mapsto>
                 make_db_item cafe_env (cafe_receipt\<lparr>rd_items := [[(''name'', JStr ''Tea'')]]\<rparr>)]\<rparr>) \<and>
   db_items (make_db_item cafe_env (cafe_receipt\<lparr>rd_items := [[(''name'', JStr ''Tea'')]]\<rparr>)) =
     [[(''name'', JStr ''Tea''), (''price'', JStr ''0.00''), (''quantity'', JStr ''1'')]] \<and>
   db_processed_timestamp
     (make_db_item cafe_env (cafe_receipt\<lparr>rd_items := [[(''name'', JStr ''Tea'')]]\<rparr>)) =
     ''2024-03-05T10:15:30.123456''"
proof -
  let ?rd = "cafe_receipt\<lparr>rd_items := [[(''name'', JStr ''Tea'')]]\<rparr>"
  have pu: "put_item cafe_env (DYNAMODB_TABLE cafe_env) (make_db_item cafe_env ?rd) = None"
    by (simp add: cafe_env_def)
  have tn: "DYNAMODB_TABLE cafe_env = ''Table_name''"
    "now_iso cafe_env = ''2024-03-05T10:15:30.123456''"
    by (simp_all add: cafe_env_def)
  have ks: "rd_receipt_id ?rd = ''3f2b8c1e-5d4a-4e6f-9a7b-0c1d2e3f4a5b''"
    "rd_date ?rd = JStr ''2024-03-01''" "rd_items ?rd = [[(''name'', JStr ''Tea'')]]"
    by (simp_all add: cafe_receipt_def)
  have its: "length (db_items (make_db_item cafe_env ?rd)) = 1"
    by (simp add: make_db_item_def)
  from store_writes_normalised_item
    [of cafe_env ?rd "JStr ''receipts''" "''cafe.jpg''" empty_world]
  have "snd (store_receipt_in_dynamodb cafe_env ?rd (JStr ''receipts'') ''cafe.jpg'' empty_world)
      = \<lparr>calls = [PutItem ''Table_name'' (make_db_item cafe_env ?rd)],
         table = [(''3f2b8c1e-5d4a-4e6f-9a7b-0c1d2e3f4a5b'', JStr ''2024-03-01'') \<mapsto>
                   make_db_item cafe_env ?rd]\<rparr>"
    and "fst (store_receipt_in_dynamodb cafe_env ?rd (JStr ''receipts'') ''cafe.jpg'' empty_world)
      = Inr ()"
    and "db_processed_timestamp (make_db_item cafe_env ?rd) = ''2024-03-05T10:15:30.123456''"
    and "db_items (make_db_item cafe_env ?rd) ! 0 =
      [(''name'', JStr ''Tea''), (''price'', JStr ''0.00''), (''quantity'', JStr ''1'')]"
    using pu by (simp_all add: tn ks empty_world_def)
  with its show ?thesis
    by (cases "db_items (make_db_item cafe_env ?rd)")
       (auto simp: prod_eq_iff)
qed



text \<open>
  C9. For every event the handler returns a response with status code 200 or 500
  and a body produced by \<open>json.dumps\<close>; the clause of line 80 catches every
  exception the body of the \<open>try\<close> can raise. Each of them is answered with 500 and
  named in the body, wherever it is raised: in reading the event (a malformed event;
  no AWS call is made), in the object check, in the call to Textract, in the mapper on
  a malformed answer, in the store write. The status is 200 exactly when none of
  these stages raised, whatever the call to SES does.
\<close>

theorem handler_always_answers:
  "(statusCode (fst (lambda_handler en event w)) = 200 \<or>
    statusCode (fst (lambda_handler en event w)) = 500) \<and>
   (\<forall>e. event_object en event = Inl e \<longrightarrow>
      lambda_handler en event w =
        (\<lparr>statusCode = 500, body = [Lit ''Error: '', StrExn e]\<rparr>, w)) \<and>
   (\<forall>bucket key e.
      event_object en event = Inr (bucket, key) \<and> head_object en bucket key = Some e \<longrightarrow>
      lambda_handler en event w =
        (\<lparr>statusCode = 500,
          body = [Lit ''Error: '',
                  StrExn (PyException [Lit ''Unable to access object '', StrOf (JStr key),
                                       Lit '' in bucket '', StrOf bucket, Lit '': '',
                                       StrExn e])]\<rparr>,
         w\<lparr>calls := calls w @ [HeadObject bucket key]\<rparr>)) \<and>
   (\<forall>bucket key e.
      event_object en event = Inr (bucket, key) \<and> head_object en bucket key = None \<and>
      analyze_expense en bucket key = Inl e \<longrightarrow>
      lambda_handler en event w =
        (\<lparr>statusCode = 500, body = [Lit ''Error: '', StrExn e]\<rparr>,
         w\<lparr>calls := calls w @ [HeadObject bucket key, AnalyzeExpense bucket key]\<rparr>)) \<and>
   (\<forall>bucket key resp e.
      event_object en event = Inr (bucket, key) \<and> head_object en bucket key = None \<and>
      analyze_expense en bucket key = Inr resp \<and>
      receipt_of_response en bucket key resp = Inl e \<longrightarrow>
      lambda_handler en event w =
        (\<lparr>statusCode = 500, body = [Lit ''Error: '', StrExn e]\<rparr>,
         w\<lparr>calls := calls w @ [HeadObject bucket key, AnalyzeExpense bucket key]\<rparr>)) \<and>
   (\<forall>bucket key resp rd e.
      event_object en event = Inr (bucket, key) \<and> head_object en bucket key = None \<and>
      analyze_expense en bucket key = Inr resp \<and>
      receipt_of_response en bucket key resp = Inr rd \<and>
      put_item en (DYNAMODB_TABLE en) (make_db_item en rd) = Some e \<longrightarrow>
      lambda_handler en event w =
        (\<lparr>statusCode = 500, body = [Lit ''Error: '', StrExn e]\<rparr>,
         w\<lparr>calls := calls w @ [HeadObject bucket key, AnalyzeExpense bucket key,
                               PutItem (DYNAMODB_TABLE en) (make_db_item en rd)]\<rparr>)) \<and>
   ((statusCode (fst (lambda_handler en event w)) = 200) =
      (\<exists>bucket key resp rd.
         event_object en event = Inr (bucket, key) \<and> head_object en bucket key = None \<and>
         analyze_expense en bucket key = Inr resp \<and>
         receipt_of_response en bucket key resp = Inr rd \<and>
         put_item en (DYNAMODB_TABLE en) (make_db_item en rd) = None))"
proof -
  have outcome:
    "(\<exists>e. event_object en event = Inl e) \<or>
     (\<exists>bucket key e. event_object en event = Inr (bucket, key) \<and>
        head_object en bucket key = Some e) \<or>
     (\<exists>bucket key e. event_object en event = Inr (bucket, key) \<and>
        head_object en bucket key = None \<and> analyze_expense en bucket key = Inl e) \<or>
     (\<exists>bucket key resp e. event_object en event = Inr (bucket, key) \<and>
        head_object en bucket key = None \<and> analyze_expense en bucket key = Inr resp \<and>
        receipt_of_response en bucket key resp = Inl e) \<or>
     (\<exists>bucket key resp rd e. event_object en event = Inr (bucket, key) \<and>
        head_object en bucket key = None \<and> analyze_expense en bucket key = Inr resp \<and>
        receipt_of_response en bucket key resp = Inr rd \<and>
        put_item en (DYNAMODB_TABLE en) (make_db_item en rd) = Some e) \<or>
     (\<exists>bucket key resp rd. event_object en event = Inr (bucket, key) \<and>
        head_object en bucket key = None \<and> analyze_expense en bucket key = Inr resp \<and>
        receipt_of_response en bucket key resp = Inr rd \<and>
        put_item en (DYNAMODB_TABLE en) (make_db_item en rd) = None)"
  proof (cases "event_object en event")
    case (Inl e)
    then show ?thesis by blast
  next
    case (Inr bk)
    obtain bucket key where bk: "bk = (bucket, key)" by (cases bk)
    show ?thesis
    proof (cases "head_object en bucket key")
      case (Some e)
      with Inr bk show ?thesis by blast
    next
      case None
      show ?thesis
      proof (cases "analyze_expense en bucket key")
        case (Inl e)
        with Inr bk None show ?thesis by blast
      next
        case resp: (Inr resp)
        show ?thesis
        proof (cases "receipt_of_response en bucket key resp")
          case (Inl e)
          with Inr bk None resp show ?thesis by blast
        next
          case rd: (Inr rd)
          show ?thesis
          proof (cases "put_item en (DYNAMODB_TABLE en) (make_db_item en rd)")
            case (Some e)
            with Inr bk None resp rd show ?thesis by blast
          next
            case put: None
            with Inr bk None resp rd show ?thesis by blast
          qed
        qed
      qed
    qed
  qed
  have status: "statusCode (fst (lambda_handler en event w)) = 200 \<or>
      statusCode (fst (lambda_handler en event w)) = 500"
    using outcome
    by (auto simp: handler_bad_event handler_no_object handler_textract_raises
        handler_mapper_raises handler_store_raises handler_stored)
  have ok: "(statusCode (fst (lambda_handler en event w)) = 200) =
      (\<exists>bucket key resp rd.
         event_object en event = Inr (bucket, key) \<and> head_object en bucket key = None \<and>
         analyze_expense en bucket key = Inr resp \<and>
         receipt_of_response en bucket key resp = Inr rd \<and>
         put_item en (DYNAMODB_TABLE en) (make_db_item en rd) = None)"
    using outcome
    by (auto simp: handler_bad_event handler_no_object handler_textract_raises
        handler_mapper_raises handler_store_raises handler_stored)
  from status ok show ?thesis
    by (simp add: handler_bad_event handler_no_object handler_textract_raises
        handler_mapper_raises handler_store_raises)
qed

theorem handler_always_answers_witness:
  "lambda_handler cafe_env (JDict []) empty_world =
     (\<lparr>statusCode = 500, body = [Lit ''Error: '', StrExn (KeyError (JStr ''Records''))]\<rparr>,
      empty_world) \<and>
   fst (lambda_handler (cafe_env\<lparr>head_object := (\<lambda>b k. Some (ClientError ''404''))\<rparr>)
      cafe_event empty_world) =
     \<lparr>statusCode = 500,
      body = [Lit ''Error: '',
              StrExn (PyException [Lit ''Unable to access object '', StrOf (JStr ''cafe.jpg''),
                                   Lit '' in bucket '', StrOf (JStr ''receipts''), Lit '': '',
                                   StrExn (ClientError ''404'')])]\<rparr> \<and>
   fst (lambda_handler
      (cafe_env\<lparr>analyze_expense := (\<lambda>b k. Inl (ClientError ''UnsupportedDocument''))\<rparr>)
      cafe_event empty_world) =
     \<lparr>statusCode = 500,
      body = [Lit ''Error: '', StrExn (ClientError ''UnsupportedDocument'')]\<rparr> \<and>
   fst (lambda_handler
      (cafe_env\<lparr>analyze_expense := (\<lambda>b k. Inr (JDict [(''ExpenseDocuments'', JNum 7)]))\<rparr>)
      cafe_event empty_world) =
     \<lparr>statusCode = 500, body = [Lit ''Error: '', StrExn TypeError]\<rparr> \<and>
   fst (lambda_handler
      (cafe_env\<lparr>put_item := (\<lambda>t i. Some (ClientError ''ServiceUnavailable''))\<rparr>)
      cafe_event empty_world) =
     \<lparr>statusCode = 500,
      body = [Lit ''Error: '', StrExn (ClientError ''ServiceUnavailable'')]\<rparr> \<and>
   statusCode (fst (lambda_handler
      (cafe_env\<lparr>send_email := (\<lambda>m. Some (ClientError ''MessageRejected''))\<rparr>)
      cafe_event empty_world)) = 200"
proof -
  let ?b = "JStr ''receipts''" and ?k = "''cafe.jpg''"
  let ?no_object = "cafe_env\<lparr>head_object := (\<lambda>b k. Some (ClientError ''404''))\<rparr>"
  let ?no_analysis =
    "cafe_env\<lparr>analyze_expense := (\<lambda>b k. Inl (ClientError ''UnsupportedDocument''))\<rparr>"
  let ?bad_answer =
    "cafe_env\<lparr>analyze_expense := (\<lambda>b k. Inr (JDict [(''ExpenseDocuments'', JNum 7)]))\<rparr>"
  let ?no_store = "cafe_env\<lparr>put_item := (\<lambda>t i. Some (ClientError ''ServiceUnavailable''))\<rparr>"
  let ?no_mail = "cafe_env\<lparr>send_email := (\<lambda>m. Some (ClientError ''MessageRejected''))\<rparr>"
  have ev: "event_object cafe_env (JDict []) = Inl (KeyError (JStr ''Records''))"
    "event_object ?no_object cafe_event = Inr (?b, ?k)"
    "event_object ?no_analysis cafe_event = Inr (?b, ?k)"
    "event_object ?bad_answer cafe_event = Inr (?b, ?k)"
    "event_object ?no_store cafe_event = Inr (?b, ?k)"
    "event_object ?no_mail cafe_event = Inr (?b, ?k)"
    by (simp_all add: event_object_def cafe_event_def s3_event_def cafe_env_def)
  have ho: "head_object ?no_object ?b ?k = Some (ClientError ''404'')"
    "head_object ?no_analysis ?b ?k = None" "head_object ?bad_answer ?b ?k = None"
    "head_object ?no_store ?b ?k = None" "head_object ?no_mail ?b ?k = None"
    by (simp_all add: cafe_env_def)
  have an: "analyze_expense ?no_analysis ?b ?k = Inl (ClientError ''UnsupportedDocument'')"
    "analyze_expense ?bad_answer ?b ?k = Inr (JDict [(''ExpenseDocuments'', JNum 7)])"
    "analyze_expense ?no_store ?b ?k = Inr cafe_response"
    "analyze_expense ?no_mail ?b ?k = Inr cafe_response"
    by (simp_all add: cafe_env_def)
  have bad: "receipt_of_response ?bad_answer ?b ?k (JDict [(''ExpenseDocuments'', JNum 7)])
      = Inl TypeError"
    by (simp add: receipt_of_response_def)
  have rc: "receipt_of_response ?no_store ?b ?k cafe_response = Inr cafe_receipt"
    "receipt_of_response ?no_mail ?b ?k cafe_response = Inr cafe_receipt"
    by (simp_all add: cafe_mapping cafe_receipt_def cafe_env_def)
  have pu: "put_item ?no_store (DYNAMODB_TABLE ?no_store) (make_db_item ?no_store cafe_receipt)
      = Some (ClientError ''ServiceUnavailable'')"
    "put_item ?no_mail (DYNAMODB_TABLE ?no_mail) (make_db_item ?no_mail cafe_receipt) = None"
    by (simp_all add: cafe_env_def)
  from handler_always_answers [of cafe_env "JDict []" empty_world] ev(1)
  have a: "lambda_handler cafe_env (JDict []) empty_world =
     (\<lparr>statusCode = 500, body = [Lit ''Error: '', StrExn (KeyError (JStr ''Records''))]\<rparr>,
      empty_world)"
    by blast
  from handler_always_answers [of ?no_object cafe_event empty_world] ev(2) ho(1)
  have b: "lambda_handler ?no_object cafe_event empty_world =
     (\<lparr>statusCode = 500,
       body = [Lit ''Error: '',
               StrExn (PyException [Lit ''Unable to access object '', StrOf (JStr ?k),
                                    Lit '' in bucket '', StrOf ?b, Lit '': '',
                                    StrExn (ClientError ''404'')])]\<rparr>,
      empty_world\<lparr>calls := calls empty_world @ [HeadObject ?b ?k]\<rparr>)"
    by blast
  from handler_always_answers [of ?no_analysis cafe_event empty_world] ev(3) ho(2) an(1)
  have c: "lambda_handler ?no_analysis cafe_event empty_world =
     (\<lparr>statusCode = 500,
       body = [Lit ''Error: '', StrExn (ClientError ''UnsupportedDocument'')]\<rparr>,
      empty_world\<lparr>calls := calls empty_world @ [HeadObject ?b ?k, AnalyzeExpense ?b ?k]\<rparr>)"
    by blast
  from handler_always_answers [of ?bad_answer cafe_event empty_world] ev(4) ho(3) an(2) bad
  have d: "lambda_handler ?bad_answer cafe_event empty_world =
     (\<lparr>statusCode = 500, body = [Lit ''Error: '', StrExn TypeError]\<rparr>,
      empty_world\<lparr>calls := calls empty_world @ [HeadObject ?b ?k, AnalyzeExpense ?b ?k]\<rparr>)"
    by blast
  from handler_always_answers [of ?no_store cafe_event empty_world] ev(5) ho(4) an(3) rc(1) pu(1)
  have e: "lambda_handler ?no_store cafe_event empty_world =
     (\<lparr>statusCode = 500,
       body = [Lit ''Error: '', StrExn (ClientError ''ServiceUnavailable'')]\<rparr>,
      empty_world\<lparr>calls := calls empty_world @
        [HeadObject ?b ?k, AnalyzeExpense ?b ?k,
         PutItem (DYNAMODB_TABLE ?no_store) (make_db_item ?no_store cafe_receipt)]\<rparr>)"
    by blast
  from handler_always_answers [of ?no_mail cafe_event empty_world] ev(6) ho(5) an(4) rc(2) pu(2)
  have f: "statusCode (fst (lambda_handler ?no_mail cafe_event empty_world)) = 200"
    by blast
  from a b c d e f show ?thesis by simp
qed



end
